theory Spec2Isabelle
  imports Main "HOL-Library.AList"
begin

section \<open>JavaScript values and objects\<close>

text \<open>
  The services receive plain JavaScript objects (request payloads, the identity attached
  to a request).  A value is one of the primitive kinds, a function (known by its name)
  or an object.  An object value has its own properties, a list read with
  first-binding-wins lookup, and the properties it inherits: what a read of a name that
  is no own property finds on the prototype chain.  Numbers are the integer ids of the
  application.
\<close>

datatype jsval =
    JUndefined
  | JNull
  | JBool bool
  | JNum int
  | JStr string
  | JFunction string
  | JObj "(string \<times> jsval) list" "(string \<times> jsval) list"

text \<open>The own properties of an object: all that a spread copies and that a payload is.\<close>

type_synonym jsobj = "(string \<times> jsval) list"

text \<open>The value of an own property, \<^verbatim>\<open>undefined\<close> when there is none of that name.\<close>

definition get_prop :: "jsobj \<Rightarrow> string \<Rightarrow> jsval" where
  "get_prop obj k = (case map_of obj k of None \<Rightarrow> JUndefined | Some v \<Rightarrow> v)"

definition has_key :: "jsobj \<Rightarrow> string \<Rightarrow> bool" where
  "has_key obj k = (map_of obj k \<noteq> None)"

text \<open>
  \<^verbatim>\<open>{ ...a, ...b }\<close>: the properties of \<open>a\<close>, then those of \<open>b\<close>; a key of \<open>b\<close>
  replaces the value the same key had in \<open>a\<close>.
\<close>

definition spread :: "jsobj \<Rightarrow> jsobj \<Rightarrow> jsobj" where
  "spread a b = AList.merge a b"

section \<open>The GetUser parameter decorator\<close>

text \<open>
  \<^verbatim>\<open>
  export const GetUser = createParamDecorator(
    (data: string | undefined, ctx: ExecutionContext) => {
      const request = ctx.switchToHttp().getRequest<{ user?: Record<string, any> }>();
      const user = request.user ?? null;
      if (!user) { return null; }
      if (data) { return user[data] as string; }
      return user;
    });
  \<close>
  The request is typed \<^verbatim>\<open>{ user?: Record<string, any> }\<close>: its user is absent
  (\<open>None\<close>) or an object, so \<^verbatim>\<open>request.user ?? null\<close> is \<^verbatim>\<open>null\<close> exactly
  when the user is absent, and an object is never falsy.  The claim name is
  \<^verbatim>\<open>string | undefined\<close>; a string is truthy exactly when it is not empty.
\<close>

record jsobject =
  own_properties :: jsobj
  inherited_properties :: jsobj

text \<open>
  \<^verbatim>\<open>obj[k]\<close>: the own property of that name; without one, the property of that
  name found on the prototype chain; \<^verbatim>\<open>undefined\<close> when there is none either.
\<close>

definition read_property :: "jsobject \<Rightarrow> string \<Rightarrow> jsval" where
  "read_property obj k =
     (case map_of (own_properties obj) k of
        Some v \<Rightarrow> v
      | None \<Rightarrow> get_prop (inherited_properties obj) k)"

text \<open>
  The members of \<^verbatim>\<open>Object.prototype\<close>, which an object literal and an object
  parsed from JSON inherit: the constructor, the methods, and the accessor
  \<^verbatim>\<open>__proto__\<close>, which reads as the prototype of the object.
\<close>

definition Object_prototype_members :: jsobj where
  "Object_prototype_members =
     (''constructor'', JFunction ''Object'') #
     map (\<lambda>name. (name, JFunction name))
       [''__defineGetter__'', ''__defineSetter__'', ''hasOwnProperty'', ''__lookupGetter__'',
        ''__lookupSetter__'', ''isPrototypeOf'', ''propertyIsEnumerable'', ''toString'',
        ''valueOf'', ''toLocaleString'']"

definition Object_prototype :: jsval where
  "Object_prototype = JObj (Object_prototype_members @ [(''__proto__'', JNull)]) []"

definition plain_object :: "jsobj \<Rightarrow> jsobject" where
  "plain_object props =
     \<lparr>own_properties = props,
      inherited_properties = Object_prototype_members @ [(''__proto__'', Object_prototype)]\<rparr>"

record request =
  req_user :: "jsobject option"

definition GetUser :: "string option \<Rightarrow> request \<Rightarrow> jsval" where
  "GetUser data request =
     (case req_user request of
        None \<Rightarrow> JNull
      | Some user \<Rightarrow>
          (case data of
             None \<Rightarrow> JObj (own_properties user) (inherited_properties user)
           | Some k \<Rightarrow>
               if k \<noteq> [] then read_property user k
               else JObj (own_properties user) (inherited_properties user)))"

section \<open>Entities and failures\<close>

text \<open>
  The entities, with the fields of the \<^verbatim>\<open>User\<close> and \<^verbatim>\<open>Bookmark\<close> classes.
  Timestamps are readings of the storage's clock.
\<close>

record user =
  u_id :: int
  u_email :: string
  u_hash :: string
  u_firstName :: "string option"
  u_lastName :: "string option"
  u_createdAt :: nat
  u_updatedAt :: nat

record bookmark =
  bm_id :: int
  bm_title :: string
  bm_description :: "string option"
  bm_link :: string
  bm_userId :: int
  bm_createdAt :: nat
  bm_updatedAt :: nat

text \<open>
  Everything the code throws.  \<open>PrismaClientKnownRequestError\<close> carries the error code
  (\<open>P2002\<close> unique constraint, \<open>P2003\<close> foreign key, \<open>P2025\<close> record not found); the
  exceptions of the application carry their message.  \<open>ValidationFailure\<close> is the
  rejection of malformed input and \<open>NotFoundException\<close> the not-found failure of the
  application (section 7 of the specification).
\<close>

datatype exception =
    PrismaClientKnownRequestError string
  | PrismaClientValidationError
  | DuplicateEmailException string
  | ForbiddenException string
  | ValidationFailure string
  | NotFoundException string

fun is_ValidationFailure :: "exception + 'a \<Rightarrow> bool" where
  "is_ValidationFailure (Inl (ValidationFailure m)) = True"
| "is_ValidationFailure _ = False"

fun is_NotFoundFailure :: "exception + 'a \<Rightarrow> bool" where
  "is_NotFoundFailure (Inl (NotFoundException m)) = True"
| "is_NotFoundFailure _ = False"

text \<open>
  \<^verbatim>\<open>
  export class DuplicateEmailException extends Error {
    constructor(email: string) { super(`Email ${email} is already taken`); ... } }
  \<close>
\<close>

definition new_DuplicateEmailException :: "string \<Rightarrow> exception" where
  "new_DuplicateEmailException email =
     DuplicateEmailException (''Email '' @ email @ '' is already taken'')"

section \<open>The persistence collaborator\<close>

text \<open>
  Modelled from the spec: the persistence collaborator (the Prisma client and the schema
  it is generated from are not among the sources).  It is durable storage of accounts
  and bookmarks that creates, reads, updates and deletes by primary key and by foreign
  key, returns records or a not-found indication, assigns the numeric id on creation,
  enforces uniqueness of the account email and keeps the owning account id of a bookmark
  a reference to an account.  The state is the two tables in insertion order, the two id
  sequences and the clock.  A failing operation leaves the state as it was.
\<close>

record database =
  db_users :: "user list"
  db_bookmarks :: "bookmark list"
  db_userSeq :: int
  db_bookmarkSeq :: int
  db_now :: nat

definition empty_db :: database where
  "empty_db = \<lparr>db_users = [], db_bookmarks = [], db_userSeq = 0, db_bookmarkSeq = 0, db_now = 0\<rparr>"

fun str_of :: "jsval \<Rightarrow> string option" where
  "str_of (JStr s) = Some s"
| "str_of _ = None"

fun num_of :: "jsval \<Rightarrow> int option" where
  "num_of (JNum n) = Some n"
| "num_of _ = None"

text \<open>
  The columns a caller may set on a bookmark and the type of each.  A \<open>data\<close> object
  may leave a property \<^verbatim>\<open>undefined\<close> (it is then not set); a property that is
  no settable column, or has the wrong type, is rejected.
\<close>

definition column_ok :: "string \<Rightarrow> jsval \<Rightarrow> bool" where
  "column_ok k v =
     (if k = ''title'' \<or> k = ''link'' then str_of v \<noteq> None
      else if k = ''description'' then str_of v \<noteq> None \<or> v = JNull
      else if k = ''userId'' then num_of v \<noteq> None
      else False)"

definition data_ok :: "jsobj \<Rightarrow> bool" where
  "data_ok data =
     list_all (\<lambda>k. get_prop data k = JUndefined \<or> column_ok k (get_prop data k)) (map fst data)"

definition user_exists :: "database \<Rightarrow> int \<Rightarrow> bool" where
  "user_exists db uid = list_ex (\<lambda>u. u_id u = uid) (db_users db)"

definition matches :: "int \<Rightarrow> int \<Rightarrow> bookmark \<Rightarrow> bool" where
  "matches bid uid b = (bm_id b = bid \<and> bm_userId b = uid)"

text \<open>\<^verbatim>\<open>prisma.bookmark.findMany({ where: { userId } })\<close>\<close>

definition bookmark_findMany :: "database \<Rightarrow> int \<Rightarrow> bookmark list" where
  "bookmark_findMany db uid = filter (\<lambda>b. bm_userId b = uid) (db_bookmarks db)"

text \<open>\<^verbatim>\<open>prisma.bookmark.findFirst({ where: { id, userId } })\<close>: the first row that
  has both values, \<^verbatim>\<open>null\<close> (\<open>None\<close>) when there is none.\<close>

definition bookmark_findFirst :: "database \<Rightarrow> int \<Rightarrow> int \<Rightarrow> bookmark option" where
  "bookmark_findFirst db bid uid = find (matches bid uid) (db_bookmarks db)"

text \<open>\<^verbatim>\<open>prisma.bookmark.create({ data })\<close>: title, link and owner are required,
  the description is optional; the id comes from the sequence.\<close>

definition bookmark_create :: "database \<Rightarrow> jsobj \<Rightarrow> (exception + bookmark) \<times> database" where
  "bookmark_create db data =
     (case (str_of (get_prop data ''title''), str_of (get_prop data ''link''),
            num_of (get_prop data ''userId'')) of
        (Some t, Some l, Some uid) \<Rightarrow>
          if \<not> data_ok data then (Inl PrismaClientValidationError, db)
          else if \<not> user_exists db uid then (Inl (PrismaClientKnownRequestError ''P2003''), db)
          else
            let b = \<lparr>bm_id = db_bookmarkSeq db + 1, bm_title = t,
                     bm_description = str_of (get_prop data ''description''),
                     bm_link = l, bm_userId = uid,
                     bm_createdAt = db_now db, bm_updatedAt = db_now db\<rparr>
            in (Inr b, db\<lparr>db_bookmarks := db_bookmarks db @ [b],
                           db_bookmarkSeq := db_bookmarkSeq db + 1\<rparr>)
      | _ \<Rightarrow> (Inl PrismaClientValidationError, db))"

text \<open>The row after an update: each column the \<open>data\<close> object sets is replaced.\<close>

definition apply_patch :: "nat \<Rightarrow> jsobj \<Rightarrow> bookmark \<Rightarrow> bookmark" where
  "apply_patch now data b =
     b\<lparr>bm_title := (case str_of (get_prop data ''title'') of Some t \<Rightarrow> t | None \<Rightarrow> bm_title b),
       bm_description :=
         (case get_prop data ''description'' of
            JStr d \<Rightarrow> Some d | JNull \<Rightarrow> None | _ \<Rightarrow> bm_description b),
       bm_link := (case str_of (get_prop data ''link'') of Some l \<Rightarrow> l | None \<Rightarrow> bm_link b),
       bm_userId := (case num_of (get_prop data ''userId'') of Some u \<Rightarrow> u | None \<Rightarrow> bm_userId b),
       bm_updatedAt := now\<rparr>"

text \<open>\<^verbatim>\<open>prisma.bookmark.update({ where: { id, userId }, data })\<close>: fails with
  \<open>P2025\<close> when no row has both values.\<close>

definition bookmark_update ::
  "database \<Rightarrow> int \<Rightarrow> int \<Rightarrow> jsobj \<Rightarrow> (exception + bookmark) \<times> database" where
  "bookmark_update db bid uid data =
     (if \<not> data_ok data then (Inl PrismaClientValidationError, db)
      else
        (case find (matches bid uid) (db_bookmarks db) of
           None \<Rightarrow> (Inl (PrismaClientKnownRequestError ''P2025''), db)
         | Some b \<Rightarrow>
             let b' = apply_patch (db_now db) data b in
             if \<not> user_exists db (bm_userId b')
             then (Inl (PrismaClientKnownRequestError ''P2003''), db)
             else (Inr b',
                   db\<lparr>db_bookmarks :=
                        map (\<lambda>r. if matches bid uid r then apply_patch (db_now db) data r else r)
                          (db_bookmarks db)\<rparr>)))"

text \<open>\<^verbatim>\<open>prisma.bookmark.delete({ where: { id, userId } })\<close>: fails with
  \<open>P2025\<close> when no row has both values, returns the deleted row otherwise.\<close>

definition bookmark_delete :: "database \<Rightarrow> int \<Rightarrow> int \<Rightarrow> (exception + bookmark) \<times> database" where
  "bookmark_delete db bid uid =
     (case find (matches bid uid) (db_bookmarks db) of
        None \<Rightarrow> (Inl (PrismaClientKnownRequestError ''P2025''), db)
      | Some b \<Rightarrow>
          (Inr b, db\<lparr>db_bookmarks := filter (\<lambda>r. \<not> matches bid uid r) (db_bookmarks db)\<rparr>))"

text \<open>\<^verbatim>\<open>prisma.user.create({ data: { email, hash } })\<close>: fails with \<open>P2002\<close> when
  the email is taken.\<close>

definition user_create :: "database \<Rightarrow> string \<Rightarrow> string \<Rightarrow> (exception + user) \<times> database" where
  "user_create db email hash =
     (if list_ex (\<lambda>u. u_email u = email) (db_users db)
      then (Inl (PrismaClientKnownRequestError ''P2002''), db)
      else
        let u = \<lparr>u_id = db_userSeq db + 1, u_email = email, u_hash = hash,
                 u_firstName = None, u_lastName = None,
                 u_createdAt = db_now db, u_updatedAt = db_now db\<rparr>
        in (Inr u, db\<lparr>db_users := db_users db @ [u], db_userSeq := db_userSeq db + 1\<rparr>))"

text \<open>The invariant of the bookmark table: ids are unique and were all handed out by
  the sequence.\<close>

definition wf_db :: "database \<Rightarrow> bool" where
  "wf_db db =
     (distinct (map bm_id (db_bookmarks db)) \<and>
      list_all (\<lambda>b. bm_id b \<le> db_bookmarkSeq db) (db_bookmarks db))"

section \<open>BookmarkService\<close>

text \<open>
  \<^verbatim>\<open>
  async getBookmarks(userId: number) {
    return await this.prisma.bookmark.findMany({ where: { userId } }); }
  async getBookmarkById(userId: number, bookmarkId: number) {
    return await this.prisma.bookmark.findFirst({ where: { id: bookmarkId, userId } }); }
  async createBookmark(userId: number, dto: CreateBookmarkDto) {
    return await this.prisma.bookmark.create({ data: { userId, ...dto } }); }
  async editBookmarkById(userId: number, bookmarkId: number, dto: EditBookmarkDto) {
    return await this.prisma.bookmark.update({
      where: { id: bookmarkId, userId }, data: { ...dto } }); }
  async deleteBookmarkById(userId: number, bookmarkId: number) {
    return await this.prisma.bookmark.delete({ where: { id: bookmarkId, userId } }); }
  \<close>
  Each method takes the state of the storage; the ones that write return the new state
  with their result.  No method catches an error of the storage.
\<close>

definition getBookmarks :: "database \<Rightarrow> int \<Rightarrow> bookmark list" where
  "getBookmarks db userId = bookmark_findMany db userId"

definition getBookmarkById :: "database \<Rightarrow> int \<Rightarrow> int \<Rightarrow> bookmark option" where
  "getBookmarkById db userId bookmarkId = bookmark_findFirst db bookmarkId userId"

definition createBookmark :: "database \<Rightarrow> int \<Rightarrow> jsobj \<Rightarrow> (exception + bookmark) \<times> database" where
  "createBookmark db userId dto = bookmark_create db (spread [(''userId'', JNum userId)] dto)"

definition editBookmarkById ::
  "database \<Rightarrow> int \<Rightarrow> int \<Rightarrow> jsobj \<Rightarrow> (exception + bookmark) \<times> database" where
  "editBookmarkById db userId bookmarkId dto = bookmark_update db bookmarkId userId (spread [] dto)"

definition deleteBookmarkById :: "database \<Rightarrow> int \<Rightarrow> int \<Rightarrow> (exception + bookmark) \<times> database" where
  "deleteBookmarkById db userId bookmarkId = bookmark_delete db bookmarkId userId"

section \<open>PrismaUserRepository\<close>

text \<open>
  \<^verbatim>\<open>
  async create(email: string, hash: string): Promise<User> {
    try {
      const prismaUser = await this.prisma.user.create({ data: { email, hash } });
      return this.toEntity(prismaUser);
    } catch (error) {
      if (error instanceof PrismaClientKnownRequestError && error.code === 'P2002') {
        throw new DuplicateEmailException(email);
      }
      throw error;
    }
  }
  \<close>
\<close>

definition toEntity :: "user \<Rightarrow> user" where
  "toEntity prismaUser =
     \<lparr>u_id = u_id prismaUser, u_email = u_email prismaUser, u_hash = u_hash prismaUser,
      u_firstName = u_firstName prismaUser, u_lastName = u_lastName prismaUser,
      u_createdAt = u_createdAt prismaUser, u_updatedAt = u_updatedAt prismaUser\<rparr>"

definition userRepository_create ::
  "database \<Rightarrow> string \<Rightarrow> string \<Rightarrow> (exception + user) \<times> database" where
  "userRepository_create db email hash =
     (case user_create db email hash of
        (Inr prismaUser, db') \<Rightarrow> (Inr (toEntity prismaUser), db')
      | (Inl error, db') \<Rightarrow>
          if error = PrismaClientKnownRequestError ''P2002''
          then (Inl (new_DuplicateEmailException email), db')
          else (Inl error, db'))"

text \<open>
  Modelled from the spec: \<^verbatim>\<open>findByEmail(email): Promise<User | null>\<close>, declared
  in \<^verbatim>\<open>IUserRepository\<close> and not implemented in the sources: the account with
  that email, which is the sign-in key, or \<^verbatim>\<open>null\<close>.
\<close>

definition userRepository_findByEmail :: "database \<Rightarrow> string \<Rightarrow> user option" where
  "userRepository_findByEmail db email = find (\<lambda>u. u_email u = email) (db_users db)"

section \<open>The collaborators of AuthService\<close>

text \<open>
  \<^verbatim>\<open>AuthDto\<close> and the services injected into \<^verbatim>\<open>AuthService\<close>.  The argon2
  and JWT libraries and the validation service are taken as parameters:
  \<^item> \<open>validateSignupData\<close> returns the failure it throws, \<open>None\<close> when it accepts;
  \<^item> \<open>argon_hash\<close> takes the salt it draws and the password;
  \<^item> \<open>argon_verify\<close> returns a boolean or throws (on a malformed hash);
  \<^item> \<open>jwt_signAsync\<close> signs a payload with the configured secret and lifetime.
\<close>

record authDto =
  dto_email :: string
  dto_password :: string

record collaborators =
  validateSignupData :: "authDto \<Rightarrow> exception option"
  argon_hash :: "string \<Rightarrow> string \<Rightarrow> string"
  argon_verify :: "string \<Rightarrow> string \<Rightarrow> exception + bool"
  jwt_signAsync :: "jsobj \<Rightarrow> string"

text \<open>
  \<^verbatim>\<open>
  async hash(password: string): Promise<string> { return argon.hash(password); }
  async verify(hash: string, password: string): Promise<boolean> {
    return argon.verify(hash, password); }
  async generateAccessToken(userId: number, email: string): Promise<string> {
    const payload = { sub: userId, email };
    return this.jwt.signAsync(payload, { expiresIn: ..., secret: ... }); }
  \<close>
\<close>

definition passwordHashing_hash :: "collaborators \<Rightarrow> string \<Rightarrow> string \<Rightarrow> string" where
  "passwordHashing_hash c salt password = argon_hash c salt password"

definition passwordHashing_verify :: "collaborators \<Rightarrow> string \<Rightarrow> string \<Rightarrow> exception + bool" where
  "passwordHashing_verify c hash password = argon_verify c hash password"

definition generateAccessToken :: "collaborators \<Rightarrow> int \<Rightarrow> string \<Rightarrow> string" where
  "generateAccessToken c userId email =
     jwt_signAsync c [(''sub'', JNum userId), (''email'', JStr email)]"

text \<open>
  Modelled from the spec: \<^verbatim>\<open>validateSignupData(dto: AuthDto): Promise<void>\<close>,
  declared in \<^verbatim>\<open>IValidationService\<close> and not implemented in the sources.  Section
  4.4: signup rejects with \<open>ValidationFailure\<close> if email or password is empty.
\<close>

definition validateSignupData_spec :: "authDto \<Rightarrow> exception option" where
  "validateSignupData_spec dto =
     (if dto_email dto = [] \<or> dto_password dto = []
      then Some (ValidationFailure ''email and password must not be empty'')
      else None)"

section \<open>AuthService\<close>

text \<open>
  \<^verbatim>\<open>
  async signup(dto: AuthDto) {
    await this.validationService.validateSignupData(dto);
    const hash = await this.passwordHashing.hash(dto.password);
    try {
      const user = await this.userRepository.create(dto.email, hash);
      const accessToken = await this.tokenService.generateAccessToken(user.id, user.email);
      return { access_token: accessToken };
    } catch (error) {
      if (error instanceof DuplicateEmailException) {
        throw new ForbiddenException(error.message);
      }
      throw error;
    }
  }
  async signin(dto: AuthDto) {
    const user = await this.userRepository.findByEmail(dto.email);
    if (!user) { throw new ForbiddenException('Credentials incorrect'); }
    const pwMatches = await this.passwordHashing.verify(user.hash, dto.password);
    if (!pwMatches) { throw new ForbiddenException('Credentials incorrect'); }
    const accessToken = await this.tokenService.generateAccessToken(user.id, user.email);
    return { access_token: accessToken };
  }
  \<close>
\<close>

record tokenResponse =
  access_token :: string

definition signup ::
  "collaborators \<Rightarrow> string \<Rightarrow> database \<Rightarrow> authDto \<Rightarrow> (exception + tokenResponse) \<times> database" where
  "signup c salt db dto =
     (case validateSignupData c dto of
        Some failure \<Rightarrow> (Inl failure, db)
      | None \<Rightarrow>
          let hash = passwordHashing_hash c salt (dto_password dto) in
          (case userRepository_create db (dto_email dto) hash of
             (Inr user, db') \<Rightarrow>
               (Inr \<lparr>access_token = generateAccessToken c (u_id user) (u_email user)\<rparr>, db')
           | (Inl error, db') \<Rightarrow>
               (case error of
                  DuplicateEmailException message \<Rightarrow> (Inl (ForbiddenException message), db')
                | _ \<Rightarrow> (Inl error, db'))))"

definition signin :: "collaborators \<Rightarrow> database \<Rightarrow> authDto \<Rightarrow> exception + tokenResponse" where
  "signin c db dto =
     (case userRepository_findByEmail db (dto_email dto) of
        None \<Rightarrow> Inl (ForbiddenException ''Credentials incorrect'')
      | Some user \<Rightarrow>
          (case passwordHashing_verify c (u_hash user) (dto_password dto) of
             Inl error \<Rightarrow> Inl error
           | Inr pwMatches \<Rightarrow>
               if \<not> pwMatches then Inl (ForbiddenException ''Credentials incorrect'')
               else Inr \<lparr>access_token = generateAccessToken c (u_id user) (u_email user)\<rparr>))"

text \<open>A run of signup requests, each with the salt its hash draws, one after the other.\<close>

fun signups :: "collaborators \<Rightarrow> (string \<times> authDto) list \<Rightarrow> database \<Rightarrow> database" where
  "signups c [] db = db"
| "signups c ((salt, dto) # rest) db = signups c rest (snd (signup c salt db dto))"

section \<open>Reachable states\<close>

text \<open>
  The states of the storage the application can be in: the empty storage, and whatever
  the clock and the operations that write make of a reachable state.
\<close>

inductive reachable :: "database \<Rightarrow> bool" where
  reachable_empty: "reachable empty_db"
| reachable_clock: "reachable db \<Longrightarrow> reachable (db\<lparr>db_now := t\<rparr>)"
| reachable_signup: "reachable db \<Longrightarrow> reachable (snd (signup c salt db dto))"
| reachable_create: "reachable db \<Longrightarrow> reachable (snd (createBookmark db A payload))"
| reachable_edit: "reachable db \<Longrightarrow> reachable (snd (editBookmarkById db A K patch))"
| reachable_delete: "reachable db \<Longrightarrow> reachable (snd (deleteBookmarkById db A K))"

section \<open>Sample values\<close>

text \<open>
  Concrete collaborators and states on which the theorems below are exercised: the
  validation service that rejects an empty email or password, a toy hash that joins salt
  and password, a token that names the email; a storage with two accounts and one
  bookmark, owned by the second account.
\<close>

definition sample_collaborators :: collaborators where
  "sample_collaborators =
     \<lparr>validateSignupData = validateSignupData_spec,
      argon_hash = (\<lambda>salt password. salt @ ''$'' @ password),
      argon_verify =
        (\<lambda>hash password. Inr (dropWhile (\<lambda>ch. ch \<noteq> CHR ''$'') hash = CHR ''$'' # password)),
      jwt_signAsync =
        (\<lambda>payload. ''jwt '' @ (case get_prop payload ''email'' of JStr e \<Rightarrow> e | _ \<Rightarrow> []))\<rparr>"

definition sample_dto :: authDto where
  "sample_dto = \<lparr>dto_email = ''test@test.com'', dto_password = ''123456''\<rparr>"

definition sample_db :: database where
  "sample_db =
     \<lparr>db_users =
        [\<lparr>u_id = 1, u_email = ''test@test.com'', u_hash = ''s1$123456'',
          u_firstName = None, u_lastName = None, u_createdAt = 0, u_updatedAt = 0\<rparr>,
         \<lparr>u_id = 2, u_email = ''other@test.com'', u_hash = ''s2$abcdef'',
          u_firstName = None, u_lastName = None, u_createdAt = 1, u_updatedAt = 1\<rparr>],
      db_bookmarks =
        [\<lparr>bm_id = 1, bm_title = ''Other bookmark'', bm_description = None,
          bm_link = ''https://other.com'', bm_userId = 2, bm_createdAt = 2, bm_updatedAt = 2\<rparr>],
      db_userSeq = 2, db_bookmarkSeq = 1, db_now = 3\<rparr>"

definition sample_payload :: jsobj where
  "sample_payload =
     [(''title'', JStr ''Test bookmark''), (''description'', JStr ''Test description''),
      (''link'', JStr ''https://test.com'')]"

definition sample_created :: bookmark where
  "sample_created =
     \<lparr>bm_id = 2, bm_title = ''Test bookmark'', bm_description = Some ''Test description'',
      bm_link = ''https://test.com'', bm_userId = 1, bm_createdAt = 3, bm_updatedAt = 3\<rparr>"

definition sample_foreign_payload :: jsobj where
  "sample_foreign_payload =
     [(''title'', JStr ''Test bookmark''), (''link'', JStr ''https://test.com''),
      (''userId'', JNum 2)]"

definition sample_foreign :: bookmark where
  "sample_foreign =
     \<lparr>bm_id = 2, bm_title = ''Test bookmark'', bm_description = None,
      bm_link = ''https://test.com'', bm_userId = 2, bm_createdAt = 3, bm_updatedAt = 3\<rparr>"

definition sample_db_with :: "bookmark \<Rightarrow> database" where
  "sample_db_with b =
     sample_db\<lparr>db_bookmarks := db_bookmarks sample_db @ [b],
               db_bookmarkSeq := db_bookmarkSeq sample_db + 1\<rparr>"

definition sample_identity :: jsobj where
  "sample_identity = [(''id'', JNum 1), (''email'', JStr ''test@test.com'')]"

definition sample_dto2 :: authDto where
  "sample_dto2 = \<lparr>dto_email = ''test@test.com'', dto_password = ''abcdef''\<rparr>"

definition sample_dto3 :: authDto where
  "sample_dto3 = \<lparr>dto_email = ''third@test.com'', dto_password = ''qwerty''\<rparr>"

definition sample_empty_dto :: authDto where
  "sample_empty_dto = \<lparr>dto_email = [], dto_password = []\<rparr>"

definition sample_empty_password :: authDto where
  "sample_empty_password = \<lparr>dto_email = ''test@test.com'', dto_password = []\<rparr>"

section \<open>Objects\<close>

lemma get_prop_spread:
  "get_prop (spread a b) k = (if has_key b k then get_prop b k else get_prop a k)"
  by (auto simp: get_prop_def spread_def has_key_def merge_conv' map_add_def split: option.splits)

lemma keys_spread: "fst ` set (spread a b) = fst ` set a \<union> fst ` set b"
  by (simp add: spread_def dom_merge)

lemma get_prop_spread_empty: "get_prop (spread [] b) k = get_prop b k"
  by (simp add: get_prop_def spread_def merge_empty)

lemma data_ok_spread_empty: "data_ok (spread [] dto) = data_ok dto"
  by (simp add: data_ok_def list_all_iff get_prop_spread_empty keys_spread)

section \<open>Bookmarks are scoped by owner\<close>

text \<open>
  Claim C1.  When no bookmark has id \<open>K\<close> and owner \<open>A\<close>, \<open>getBookmarkById\<close> called
  for \<open>A\<close> and \<open>K\<close> yields the not-found result (\<^verbatim>\<open>null\<close>, here \<open>None\<close>) and no
  bookmark; in particular when, in a well-formed table, the bookmark with id \<open>K\<close> belongs
  to another account.
\<close>

theorem getBookmarkById_not_found:
  "(list_all (\<lambda>b. \<not> (bm_id b = K \<and> bm_userId b = A)) (db_bookmarks db)
      \<longrightarrow> getBookmarkById db A K = None) \<and>
   (wf_db db \<and> b \<in> set (db_bookmarks db) \<and> bm_id b = K \<and> bm_userId b \<noteq> A
      \<longrightarrow> getBookmarkById db A K = None)"
proof (intro conjI impI)
  assume "list_all (\<lambda>b. \<not> (bm_id b = K \<and> bm_userId b = A)) (db_bookmarks db)"
  then show "getBookmarkById db A K = None"
    by (simp add: getBookmarkById_def bookmark_findFirst_def find_None_iff list_all_iff matches_def)
next
  assume h: "wf_db db \<and> b \<in> set (db_bookmarks db) \<and> bm_id b = K \<and> bm_userId b \<noteq> A"
  then have d: "distinct (map bm_id (db_bookmarks db))" by (simp add: wf_db_def)
  from d have "inj_on bm_id (set (db_bookmarks db))" by (simp add: distinct_map)
  then have "\<And>r. r \<in> set (db_bookmarks db) \<Longrightarrow> bm_id r = K \<Longrightarrow> r = b"
    using h by (auto dest: inj_onD)
  then have "\<forall>r\<in>set (db_bookmarks db). \<not> matches K A r"
    using h by (auto simp: matches_def)
  then show "getBookmarkById db A K = None"
    by (simp add: getBookmarkById_def bookmark_findFirst_def find_None_iff)
qed

theorem getBookmarkById_not_found_witness:
  "list_all (\<lambda>b. \<not> (bm_id b = 1 \<and> bm_userId b = 1)) (db_bookmarks sample_db) \<and>
   wf_db sample_db \<and> hd (db_bookmarks sample_db) \<in> set (db_bookmarks sample_db) \<and>
   bm_id (hd (db_bookmarks sample_db)) = 1 \<and> bm_userId (hd (db_bookmarks sample_db)) \<noteq> 1 \<and>
   getBookmarkById sample_db 1 1 = None"
  using getBookmarkById_not_found [of 1 1 sample_db "hd (db_bookmarks sample_db)"]
  by (simp add: sample_db_def wf_db_def)

text \<open>
  Claim C2, as the code has it.  When no bookmark has id \<open>K\<close> and owner \<open>A\<close>,
  \<open>editBookmarkById\<close> and \<open>deleteBookmarkById\<close> called for \<open>A\<close> and \<open>K\<close> fail and
  leave the storage as it was, whatever the patch.  The failure of the delete, and of
  the edit with a patch the storage accepts, is the storage's record-not-found error
  \<open>P2025\<close>: the service has no handler, so the error leaves it as it is and not as
  the not-found failure of the application.
\<close>

theorem edit_delete_not_found:
  "list_all (\<lambda>b. \<not> (bm_id b = K \<and> bm_userId b = A)) (db_bookmarks db) \<Longrightarrow>
   isl (fst (editBookmarkById db A K patch)) \<and>
   snd (editBookmarkById db A K patch) = db \<and>
   (data_ok patch \<longrightarrow>
      fst (editBookmarkById db A K patch) = Inl (PrismaClientKnownRequestError ''P2025'')) \<and>
   deleteBookmarkById db A K = (Inl (PrismaClientKnownRequestError ''P2025''), db)"
proof -
  assume "list_all (\<lambda>b. \<not> (bm_id b = K \<and> bm_userId b = A)) (db_bookmarks db)"
  then have "find (matches K A) (db_bookmarks db) = None"
    by (simp add: find_None_iff list_all_iff matches_def)
  then show ?thesis
    by (simp add: editBookmarkById_def deleteBookmarkById_def bookmark_update_def
        bookmark_delete_def data_ok_spread_empty)
qed

theorem edit_delete_not_found_witness:
  "list_all (\<lambda>b. \<not> (bm_id b = 1 \<and> bm_userId b = 1)) (db_bookmarks sample_db) \<and>
   data_ok [(''title'', JStr ''Mine now'')] \<and>
   editBookmarkById sample_db 1 1 [(''title'', JStr ''Mine now'')] =
     (Inl (PrismaClientKnownRequestError ''P2025''), sample_db) \<and>
   deleteBookmarkById sample_db 1 1 = (Inl (PrismaClientKnownRequestError ''P2025''), sample_db)"
proof -
  have n: "list_all (\<lambda>b. \<not> (bm_id b = 1 \<and> bm_userId b = 1)) (db_bookmarks sample_db)"
    by (simp add: sample_db_def)
  have d: "data_ok [(''title'', JStr ''Mine now'')]"
    by (simp add: data_ok_def get_prop_def column_ok_def)
  show ?thesis
    using n d edit_delete_not_found [OF n, of "[(''title'', JStr ''Mine now'')]"]
    by (simp add: prod_eq_iff)
qed

text \<open>
  Account 1 has no bookmark 1 (it belongs to account 2): its edit and its delete fail
  with the error of the storage, which is no not-found failure of the application.
\<close>

theorem edit_delete_raw_error_counterexample:
  "getBookmarkById sample_db 1 1 = None \<and>
   fst (editBookmarkById sample_db 1 1 [(''title'', JStr ''Mine now'')]) =
     Inl (PrismaClientKnownRequestError ''P2025'') \<and>
   \<not> is_NotFoundFailure (fst (editBookmarkById sample_db 1 1 [(''title'', JStr ''Mine now'')])) \<and>
   fst (deleteBookmarkById sample_db 1 1) = Inl (PrismaClientKnownRequestError ''P2025'') \<and>
   \<not> is_NotFoundFailure (fst (deleteBookmarkById sample_db 1 1))"
proof -
  have d: "data_ok [(''title'', JStr ''Mine now'')]"
    by (simp add: data_ok_def get_prop_def column_ok_def)
  have n: "find (matches 1 1) (db_bookmarks sample_db) = None"
    by (simp add: sample_db_def matches_def)
  have l: "list_all (\<lambda>b. \<not> (bm_id b = 1 \<and> bm_userId b = 1)) (db_bookmarks sample_db)"
    by (simp add: sample_db_def)
  show ?thesis
    using d n l
    by (simp add: editBookmarkById_def deleteBookmarkById_def bookmark_update_def
        bookmark_delete_def data_ok_spread_empty getBookmarkById_def bookmark_findFirst_def)
qed

text \<open>
  Claim C8.  After \<open>deleteBookmarkById\<close> for \<open>A\<close> and \<open>K\<close> has succeeded,
  \<open>getBookmarkById\<close> for \<open>A\<close> and \<open>K\<close> yields the not-found result.
\<close>

theorem delete_then_get:
  "deleteBookmarkById db A K = (Inr b, db') \<Longrightarrow> getBookmarkById db' A K = None"
  by (auto simp: deleteBookmarkById_def bookmark_delete_def getBookmarkById_def
      bookmark_findFirst_def find_None_iff split: option.splits)

theorem delete_then_get_witness:
  "deleteBookmarkById sample_db 2 1 =
     (Inr (hd (db_bookmarks sample_db)), sample_db\<lparr>db_bookmarks := []\<rparr>) \<and>
   getBookmarkById (sample_db\<lparr>db_bookmarks := []\<rparr>) 2 1 = None"
proof -
  have h: "deleteBookmarkById sample_db 2 1 =
     (Inr (hd (db_bookmarks sample_db)), sample_db\<lparr>db_bookmarks := []\<rparr>)"
    by (simp add: deleteBookmarkById_def bookmark_delete_def sample_db_def matches_def)
  show ?thesis using h delete_then_get [OF h] by simp
qed

section \<open>The invariant of the bookmark table\<close>

text \<open>The empty storage is well-formed and every operation that writes keeps it so.\<close>

lemma wf_empty_db: "wf_db empty_db"
  by (simp add: wf_db_def empty_db_def)

lemma bookmark_create_Inr:
  "bookmark_create db data = (Inr b, db') \<Longrightarrow>
   data_ok data \<and>
   get_prop data ''title'' = JStr (bm_title b) \<and>
   get_prop data ''link'' = JStr (bm_link b) \<and>
   get_prop data ''userId'' = JNum (bm_userId b) \<and>
   bm_description b = str_of (get_prop data ''description'') \<and>
   user_exists db (bm_userId b) \<and>
   bm_id b = db_bookmarkSeq db + 1 \<and>
   db' = db\<lparr>db_bookmarks := db_bookmarks db @ [b], db_bookmarkSeq := db_bookmarkSeq db + 1\<rparr>"
  unfolding bookmark_create_def
  by (cases "get_prop data ''title''"; cases "get_prop data ''link''";
      cases "get_prop data ''userId''") (auto simp: Let_def split: if_splits)

lemma wf_createBookmark:
  "wf_db db \<Longrightarrow> createBookmark db A dto = (r, db') \<Longrightarrow> wf_db db'"
proof (cases r)
  case (Inl e)
  assume "wf_db db" "createBookmark db A dto = (r, db')"
  then show ?thesis using Inl
    unfolding createBookmark_def bookmark_create_def
    by (auto simp: Let_def split: option.splits if_splits)
next
  case (Inr b)
  assume w: "wf_db db" and c: "createBookmark db A dto = (r, db')"
  from c Inr have "bm_id b = db_bookmarkSeq db + 1"
    and "db' = db\<lparr>db_bookmarks := db_bookmarks db @ [b], db_bookmarkSeq := db_bookmarkSeq db + 1\<rparr>"
    using bookmark_create_Inr unfolding createBookmark_def by blast+
  then show ?thesis using w
    by (fastforce simp: wf_db_def list_all_iff)
qed

lemma wf_db_ids:
  "wf_db db \<longleftrightarrow>
     distinct (map bm_id (db_bookmarks db)) \<and>
     (\<forall>i\<in>set (map bm_id (db_bookmarks db)). i \<le> db_bookmarkSeq db)"
  by (auto simp: wf_db_def list_all_iff)

lemma bm_id_apply_patch: "bm_id (apply_patch now data b) = bm_id b"
  by (simp add: apply_patch_def)

lemma map_bm_id_patch:
  "map bm_id (map (\<lambda>r. if P r then apply_patch now data r else r) bs) = map bm_id bs"
  by (induction bs) (simp_all add: bm_id_apply_patch)

lemma bookmark_update_state:
  "bookmark_update db K A data = (r, db') \<Longrightarrow>
   db' = db \<or>
   db' = db\<lparr>db_bookmarks :=
            map (\<lambda>r. if matches K A r then apply_patch (db_now db) data r else r) (db_bookmarks db)\<rparr>"
  unfolding bookmark_update_def
  by (auto simp: Let_def split: option.splits if_splits)

lemma wf_editBookmarkById:
  "wf_db db \<Longrightarrow> editBookmarkById db A K dto = (r, db') \<Longrightarrow> wf_db db'"
  unfolding editBookmarkById_def
  by (drule bookmark_update_state) (auto simp: wf_db_ids map_bm_id_patch simp del: map_map set_map)

lemma wf_deleteBookmarkById:
  "wf_db db \<Longrightarrow> deleteBookmarkById db A K = (r, db') \<Longrightarrow> wf_db db'"
  unfolding deleteBookmarkById_def bookmark_delete_def
  by (auto simp: wf_db_def list_all_iff distinct_map_filter split: option.splits)

lemma wf_signup: "wf_db db \<Longrightarrow> signup c salt db dto = (r, db') \<Longrightarrow> wf_db db'"
  unfolding signup_def userRepository_create_def user_create_def
  by (auto simp: wf_db_def Let_def split: option.splits if_splits exception.splits)

text \<open>So every reachable state is well-formed.\<close>

lemma reachable_wf: "reachable db \<Longrightarrow> wf_db db"
proof (induction rule: reachable.induct)
  case reachable_empty
  show ?case by (rule wf_empty_db)
next
  case (reachable_clock db t)
  then show ?case by (simp add: wf_db_def)
next
  case (reachable_signup db c salt dto)
  then show ?case by (metis wf_signup prod.collapse)
next
  case (reachable_create db A payload)
  then show ?case by (metis wf_createBookmark prod.collapse)
next
  case (reachable_edit db A K patch)
  then show ?case by (metis wf_editBookmarkById prod.collapse)
next
  case (reachable_delete db A K)
  then show ?case by (metis wf_deleteBookmarkById prod.collapse)
qed

section \<open>Creating a bookmark\<close>

text \<open>A well-typed payload of an existing account is stored.\<close>

lemma createBookmark_succeeds:
  "user_exists db A \<Longrightarrow>
   createBookmark db A [(''title'', JStr t), (''description'', JStr d), (''link'', JStr l)] =
     (Inr \<lparr>bm_id = db_bookmarkSeq db + 1, bm_title = t, bm_description = Some d, bm_link = l,
           bm_userId = A, bm_createdAt = db_now db, bm_updatedAt = db_now db\<rparr>,
      db\<lparr>db_bookmarks := db_bookmarks db @
           [\<lparr>bm_id = db_bookmarkSeq db + 1, bm_title = t, bm_description = Some d, bm_link = l,
             bm_userId = A, bm_createdAt = db_now db, bm_updatedAt = db_now db\<rparr>],
         db_bookmarkSeq := db_bookmarkSeq db + 1\<rparr>)"
  by (simp add: createBookmark_def bookmark_create_def get_prop_spread has_key_def get_prop_def
      data_ok_def spread_def column_ok_def Let_def)

lemma find_append_none:
  "\<forall>x\<in>set xs. \<not> P x \<Longrightarrow> find P (xs @ ys) = find P ys"
  by (induction xs) simp_all

lemma data_ok_prop:
  assumes "data_ok data"
  shows "get_prop data k = JUndefined \<or> column_ok k (get_prop data k)"
proof (cases "map_of data k")
  case None
  then show ?thesis by (simp add: get_prop_def)
next
  case (Some v)
  then have "k \<in> fst ` set data" by (metis map_of_SomeD fst_conv image_eqI)
  with assms show ?thesis by (auto simp: data_ok_def list_all_iff)
qed

lemma get_prop_data_userId:
  "get_prop (spread [(''userId'', JNum A)] dto) ''userId'' =
     (if has_key dto ''userId'' then get_prop dto ''userId'' else JNum A)"
  by (simp add: get_prop_spread) (simp add: get_prop_def)

lemma get_prop_data_other:
  "k \<noteq> ''userId'' \<Longrightarrow> get_prop (spread [(''userId'', JNum A)] dto) k = get_prop dto k"
  by (simp add: get_prop_spread) (simp add: get_prop_def has_key_def)

text \<open>
  Claim C7.  For a payload of title, optional description and link (one that names no
  owner), once \<open>createBookmark\<close> has returned the new bookmark, \<open>getBookmarkById\<close>
  with the same account and the new id returns that bookmark, and its title, description
  and link are the payload's (an absent or \<^verbatim>\<open>null\<close> description is stored as none).
\<close>

theorem create_then_get:
  assumes "wf_db db"
    and "createBookmark db A dto = (Inr b, db')"
    and "\<not> has_key dto ''userId''"
  shows "getBookmarkById db' A (bm_id b) = Some b \<and>
         get_prop dto ''title'' = JStr (bm_title b) \<and>
         get_prop dto ''link'' = JStr (bm_link b) \<and>
         (case bm_description b of
            Some d \<Rightarrow> get_prop dto ''description'' = JStr d
          | None \<Rightarrow> get_prop dto ''description'' = JNull \<or> get_prop dto ''description'' = JUndefined)"
proof -
  let ?data = "spread [(''userId'', JNum A)] dto"
  from assms(2) have c: "bookmark_create db ?data = (Inr b, db')"
    by (simp add: createBookmark_def)
  note r = bookmark_create_Inr [OF c]
  have k: "\<And>k. k \<noteq> ''userId'' \<Longrightarrow> get_prop ?data k = get_prop dto k"
    by (rule get_prop_data_other)
  have own: "bm_userId b = A"
    using r assms(3) by (simp add: get_prop_data_userId)
  have fresh: "\<forall>x\<in>set (db_bookmarks db). \<not> matches (bm_id b) A x"
    using assms(1) r by (auto simp: wf_db_def list_all_iff matches_def)
  have "find (matches (bm_id b) A) (db_bookmarks db @ [b]) = Some b"
    using own by (simp add: find_append_none [OF fresh] matches_def)
  then have g: "getBookmarkById db' A (bm_id b) = Some b"
    using r by (simp add: getBookmarkById_def bookmark_findFirst_def)
  have t: "get_prop dto ''title'' = JStr (bm_title b)" and l: "get_prop dto ''link'' = JStr (bm_link b)"
    using r k by auto
  have dk: "get_prop dto ''description'' = JUndefined \<or>
      column_ok ''description'' (get_prop dto ''description'')"
    using data_ok_prop [of ?data "''description''"] r k by simp
  have d: "case bm_description b of
            Some d \<Rightarrow> get_prop dto ''description'' = JStr d
          | None \<Rightarrow> get_prop dto ''description'' = JNull \<or> get_prop dto ''description'' = JUndefined"
    using r k dk
    by (cases "get_prop dto ''description''") (auto simp: column_ok_def split: option.splits)
  from g t l d show ?thesis by simp
qed

lemma sample_create:
  "createBookmark sample_db 1 sample_payload = (Inr sample_created, sample_db_with sample_created)"
  by (simp add: createBookmark_def bookmark_create_def get_prop_data_userId get_prop_data_other
      has_key_def sample_payload_def get_prop_def data_ok_def spread_def column_ok_def
      user_exists_def sample_db_def sample_created_def sample_db_with_def Let_def)

lemma sample_create_foreign:
  "createBookmark sample_db 1 sample_foreign_payload =
     (Inr sample_foreign, sample_db_with sample_foreign)"
  by (simp add: createBookmark_def bookmark_create_def get_prop_data_userId get_prop_data_other
      has_key_def sample_foreign_payload_def get_prop_def data_ok_def spread_def column_ok_def
      user_exists_def sample_db_def sample_foreign_def sample_db_with_def Let_def)

theorem create_then_get_witness:
  "wf_db sample_db \<and>
   createBookmark sample_db 1 sample_payload = (Inr sample_created, sample_db_with sample_created) \<and>
   \<not> has_key sample_payload ''userId'' \<and>
   getBookmarkById (sample_db_with sample_created) 1 2 = Some sample_created \<and>
   get_prop sample_payload ''title'' = JStr ''Test bookmark'' \<and>
   get_prop sample_payload ''link'' = JStr ''https://test.com'' \<and>
   get_prop sample_payload ''description'' = JStr ''Test description''"
proof -
  have w: "wf_db sample_db" by (simp add: wf_db_def sample_db_def)
  have n: "\<not> has_key sample_payload ''userId''" by (simp add: has_key_def sample_payload_def)
  show ?thesis
    using w n sample_create create_then_get [OF w sample_create n]
    by (simp add: sample_created_def)
qed

text \<open>
  Claim C9.  The bookmark \<open>createBookmark\<close> persists is owned by the caller when the
  payload has no \<^verbatim>\<open>userId\<close> property; the payload is spread after the caller's
  id, so a payload that has the property decides the owner instead.
\<close>

theorem createBookmark_owner:
  "(\<not> has_key dto ''userId'' \<and> createBookmark db A dto = (Inr b, db')
      \<longrightarrow> bm_userId b = A \<and> db_bookmarks db' = db_bookmarks db @ [b]) \<and>
   (has_key dto ''userId'' \<and> createBookmark db A dto = (Inr b, db')
      \<longrightarrow> get_prop dto ''userId'' = JNum (bm_userId b) \<and>
          db_bookmarks db' = db_bookmarks db @ [b])"
proof -
  have r: "createBookmark db A dto = (Inr b, db') \<Longrightarrow>
      get_prop (spread [(''userId'', JNum A)] dto) ''userId'' = JNum (bm_userId b) \<and>
      db_bookmarks db' = db_bookmarks db @ [b]"
    using bookmark_create_Inr [of db "spread [(''userId'', JNum A)] dto" b db']
    by (simp add: createBookmark_def)
  show ?thesis
    using r by (auto simp: get_prop_data_userId)
qed

theorem createBookmark_owner_witness:
  "\<not> has_key sample_payload ''userId'' \<and>
   createBookmark sample_db 1 sample_payload = (Inr sample_created, sample_db_with sample_created) \<and>
   bm_userId sample_created = 1 \<and>
   has_key sample_foreign_payload ''userId'' \<and>
   createBookmark sample_db 1 sample_foreign_payload =
     (Inr sample_foreign, sample_db_with sample_foreign) \<and>
   get_prop sample_foreign_payload ''userId'' = JNum 2 \<and> bm_userId sample_foreign = 2 \<and>
   db_bookmarks (sample_db_with sample_foreign) = db_bookmarks sample_db @ [sample_foreign]"
  using createBookmark_owner [of sample_payload sample_db 1 sample_created
      "sample_db_with sample_created"]
    createBookmark_owner [of sample_foreign_payload sample_db 1 sample_foreign
      "sample_db_with sample_foreign"]
    sample_create sample_create_foreign
  by (simp add: has_key_def sample_payload_def sample_foreign_payload_def get_prop_def)

section \<open>The identity extractor\<close>

text \<open>
  Claim C10, as the code has it.  \<open>GetUser\<close> returns \<^verbatim>\<open>null\<close> when the request has
  no user, whatever claim is asked for.  With a user and a non-empty claim name it
  returns what the property read \<^verbatim>\<open>user[data]\<close> yields: the value of the claim when
  the identity has it; otherwise what the identity inherits under that name (for a plain
  object the members of \<^verbatim>\<open>Object.prototype\<close>), and \<^verbatim>\<open>undefined\<close> only when it
  inherits nothing of that name either.  It returns the whole identity when the name is
  omitted or empty.
\<close>

theorem GetUser_cases:
  "(req_user request = None \<longrightarrow> GetUser data request = JNull) \<and>
   (req_user request = Some user \<and> k \<noteq> [] \<longrightarrow>
      GetUser (Some k) request =
        (case map_of (own_properties user) k of
           Some v \<Rightarrow> v
         | None \<Rightarrow>
             (case map_of (inherited_properties user) k of
                Some v \<Rightarrow> v
              | None \<Rightarrow> JUndefined))) \<and>
   (req_user request = Some user \<and> (data = None \<or> data = Some []) \<longrightarrow>
      GetUser data request = JObj (own_properties user) (inherited_properties user))"
  by (auto simp: GetUser_def read_property_def get_prop_def split: option.splits)

theorem GetUser_cases_witness:
  "GetUser (Some ''id'') \<lparr>req_user = None\<rparr> = JNull \<and>
   GetUser (Some ''id'') \<lparr>req_user = Some (plain_object sample_identity)\<rparr> = JNum 1 \<and>
   GetUser (Some ''firstName'') \<lparr>req_user = Some (plain_object sample_identity)\<rparr> = JUndefined \<and>
   GetUser (Some ''toString'') \<lparr>req_user = Some (plain_object sample_identity)\<rparr> =
     JFunction ''toString'' \<and>
   GetUser None \<lparr>req_user = Some (plain_object sample_identity)\<rparr> =
     JObj sample_identity (inherited_properties (plain_object sample_identity)) \<and>
   GetUser (Some []) \<lparr>req_user = Some (plain_object sample_identity)\<rparr> =
     JObj sample_identity (inherited_properties (plain_object sample_identity))"
  using GetUser_cases [of "\<lparr>req_user = None\<rparr>" "Some ''id''" "plain_object sample_identity" "''id''"]
    GetUser_cases [of "\<lparr>req_user = Some (plain_object sample_identity)\<rparr>" None
      "plain_object sample_identity" "''id''"]
    GetUser_cases [of "\<lparr>req_user = Some (plain_object sample_identity)\<rparr>" "Some []"
      "plain_object sample_identity" "''firstName''"]
    GetUser_cases [of "\<lparr>req_user = Some (plain_object sample_identity)\<rparr>" None
      "plain_object sample_identity" "''toString''"]
  by (simp add: sample_identity_def plain_object_def Object_prototype_members_def)

text \<open>
  The identity of the sample has no claim \<^verbatim>\<open>constructor\<close>, and \<open>GetUser\<close> asked
  for it returns the inherited function, not \<^verbatim>\<open>undefined\<close>.
\<close>

theorem GetUser_inherited_counterexample:
  "map_of sample_identity ''constructor'' = None \<and>
   GetUser (Some ''constructor'') \<lparr>req_user = Some (plain_object sample_identity)\<rparr> =
     JFunction ''Object'' \<and>
   GetUser (Some ''constructor'') \<lparr>req_user = Some (plain_object sample_identity)\<rparr> \<noteq> JUndefined"
  by (simp add: GetUser_def read_property_def get_prop_def sample_identity_def plain_object_def
      Object_prototype_members_def)

section \<open>Signup and signin\<close>

lemma findByEmail_None_iff:
  "userRepository_findByEmail db email = None \<longleftrightarrow> \<not> list_ex (\<lambda>u. u_email u = email) (db_users db)"
  by (auto simp: userRepository_findByEmail_def find_None_iff list_ex_iff)

lemma toEntity_id: "toEntity u = u"
  by (simp add: toEntity_def)

lemma userRepository_create_fresh:
  "\<not> list_ex (\<lambda>u. u_email u = email) (db_users db) \<Longrightarrow>
   userRepository_create db email hash =
     (Inr \<lparr>u_id = db_userSeq db + 1, u_email = email, u_hash = hash,
           u_firstName = None, u_lastName = None,
           u_createdAt = db_now db, u_updatedAt = db_now db\<rparr>,
      db\<lparr>db_users := db_users db @
           [\<lparr>u_id = db_userSeq db + 1, u_email = email, u_hash = hash,
             u_firstName = None, u_lastName = None,
             u_createdAt = db_now db, u_updatedAt = db_now db\<rparr>],
         db_userSeq := db_userSeq db + 1\<rparr>)"
  by (simp add: userRepository_create_def user_create_def toEntity_def Let_def)

lemma userRepository_create_taken:
  "list_ex (\<lambda>u. u_email u = email) (db_users db) \<Longrightarrow>
   userRepository_create db email hash = (Inl (new_DuplicateEmailException email), db)"
  by (simp add: userRepository_create_def user_create_def)

lemma signup_fresh:
  assumes "validateSignupData c dto = None"
    and "\<not> list_ex (\<lambda>u. u_email u = dto_email dto) (db_users db)"
  shows "\<exists>db'. signup c salt db dto =
           (Inr \<lparr>access_token = generateAccessToken c (db_userSeq db + 1) (dto_email dto)\<rparr>, db') \<and>
         list_ex (\<lambda>u. u_email u = dto_email dto) (db_users db')"
  using assms by (simp add: signup_def userRepository_create_fresh)

lemma signup_taken:
  assumes "validateSignupData c dto = None"
    and "list_ex (\<lambda>u. u_email u = dto_email dto) (db_users db)"
  shows "signup c salt db dto =
           (Inl (ForbiddenException (''Email '' @ dto_email dto @ '' is already taken'')), db)"
  using assms
  by (simp add: signup_def userRepository_create_taken new_DuplicateEmailException_def)

lemma signup_keeps_emails:
  assumes "list_ex (\<lambda>u. u_email u = email) (db_users db)"
  shows "list_ex (\<lambda>u. u_email u = email) (db_users (snd (signup c salt db dto)))"
proof (cases "validateSignupData c dto")
  case (Some failure)
  with assms show ?thesis by (simp add: signup_def)
next
  case None
  show ?thesis
  proof (cases "list_ex (\<lambda>u. u_email u = dto_email dto) (db_users db)")
    case True
    with None assms show ?thesis by (simp add: signup_taken)
  next
    case False
    with None assms show ?thesis
      by (simp add: signup_def userRepository_create_fresh)
  qed
qed

lemma signups_keep_emails:
  "list_ex (\<lambda>u. u_email u = email) (db_users db) \<Longrightarrow>
   list_ex (\<lambda>u. u_email u = email) (db_users (signups c reqs db))"
proof (induction reqs arbitrary: db)
  case Nil
  then show ?case by simp
next
  case (Cons req reqs)
  obtain salt dto where req: "req = (salt, dto)" by (cases req)
  from Cons.prems have "list_ex (\<lambda>u. u_email u = email) (db_users (snd (signup c salt db dto)))"
    by (rule signup_keeps_emails)
  then show ?case using Cons.IH req by simp
qed

text \<open>
  Claim C4.  A first signup with an email (a payload the validation service accepts, for
  an email no account has) succeeds and returns a token; the account stays through any
  further signups, and every later signup with the same email (again a payload the
  validation service accepts, whatever its password) fails with the duplicate-email
  failure: the \<open>P2002\<close> of the storage, turned into \<open>DuplicateEmailException\<close> by the
  repository and into \<open>ForbiddenException\<close> with its message by the service, the storage
  unchanged.
\<close>

theorem signup_once_per_email:
  assumes "validateSignupData c dto = None"
    and "validateSignupData c dto' = None"
    and "dto_email dto' = dto_email dto"
    and "userRepository_findByEmail db (dto_email dto) = None"
  shows "fst (signup c salt db dto) =
           Inr \<lparr>access_token = generateAccessToken c (db_userSeq db + 1) (dto_email dto)\<rparr> \<and>
         signup c salt' (signups c reqs (snd (signup c salt db dto))) dto' =
           (Inl (ForbiddenException (''Email '' @ dto_email dto @ '' is already taken'')),
            signups c reqs (snd (signup c salt db dto)))"
proof -
  from assms(4) have "\<not> list_ex (\<lambda>u. u_email u = dto_email dto) (db_users db)"
    by (simp add: findByEmail_None_iff)
  from signup_fresh [OF assms(1) this, of salt]
  obtain db1 where first: "signup c salt db dto =
       (Inr \<lparr>access_token = generateAccessToken c (db_userSeq db + 1) (dto_email dto)\<rparr>, db1)"
    and taken: "list_ex (\<lambda>u. u_email u = dto_email dto) (db_users db1)"
    by blast
  from taken have "list_ex (\<lambda>u. u_email u = dto_email dto') (db_users (signups c reqs db1))"
    using assms(3) by (simp add: signups_keep_emails)
  from signup_taken [OF assms(2) this, of salt'] first assms(3)
  show ?thesis by simp
qed

theorem signup_once_per_email_witness:
  "validateSignupData sample_collaborators sample_dto = None \<and>
   validateSignupData sample_collaborators sample_dto2 = None \<and>
   dto_email sample_dto2 = dto_email sample_dto \<and>
   userRepository_findByEmail empty_db (dto_email sample_dto) = None \<and>
   fst (signup sample_collaborators ''s1'' empty_db sample_dto) =
     Inr \<lparr>access_token = ''jwt test@test.com''\<rparr> \<and>
   fst (signup sample_collaborators ''s2''
         (signups sample_collaborators [(''s3'', sample_dto3)]
            (snd (signup sample_collaborators ''s1'' empty_db sample_dto)))
         sample_dto2) =
     Inl (ForbiddenException ''Email test@test.com is already taken'')"
proof -
  have v1: "validateSignupData sample_collaborators sample_dto = None"
    and v2: "validateSignupData sample_collaborators sample_dto2 = None"
    by (simp_all add: sample_collaborators_def validateSignupData_spec_def sample_dto_def
        sample_dto2_def)
  have e: "dto_email sample_dto2 = dto_email sample_dto"
    by (simp add: sample_dto_def sample_dto2_def)
  have n: "userRepository_findByEmail empty_db (dto_email sample_dto) = None"
    by (simp add: userRepository_findByEmail_def empty_db_def)
  have t: "generateAccessToken sample_collaborators (db_userSeq empty_db + 1) (dto_email sample_dto)
      = ''jwt test@test.com''"
    by (simp add: generateAccessToken_def sample_collaborators_def get_prop_def sample_dto_def)
  show ?thesis
    using v1 v2 e n
      signup_once_per_email [OF v1 v2 e n, of "''s1''" "''s2''" "[(''s3'', sample_dto3)]"]
    by (simp add: t) (simp add: sample_dto_def)
qed

text \<open>
  Claim C3.  A signin with an email no account has and a signin with the email of an
  account and a password that does not verify fail with the same exception, of the same
  kind and with the same message.
\<close>

theorem signin_failures_indistinguishable:
  assumes "userRepository_findByEmail db (dto_email dto) = None"
    and "userRepository_findByEmail db (dto_email dto') = Some user"
    and "passwordHashing_verify c (u_hash user) (dto_password dto') = Inr False"
  shows "signin c db dto = Inl (ForbiddenException ''Credentials incorrect'') \<and>
         signin c db dto' = signin c db dto"
  using assms by (simp add: signin_def)

theorem signin_failures_indistinguishable_witness:
  "userRepository_findByEmail sample_db (dto_email sample_dto3) = None \<and>
   userRepository_findByEmail sample_db (dto_email sample_dto2) = Some (hd (db_users sample_db)) \<and>
   passwordHashing_verify sample_collaborators (u_hash (hd (db_users sample_db)))
     (dto_password sample_dto2) = Inr False \<and>
   signin sample_collaborators sample_db sample_dto3 =
     Inl (ForbiddenException ''Credentials incorrect'') \<and>
   signin sample_collaborators sample_db sample_dto2 =
     Inl (ForbiddenException ''Credentials incorrect'')"
proof -
  have a: "userRepository_findByEmail sample_db (dto_email sample_dto3) = None"
    by (simp add: userRepository_findByEmail_def sample_db_def sample_dto3_def)
  have b: "userRepository_findByEmail sample_db (dto_email sample_dto2) = Some (hd (db_users sample_db))"
    by (simp add: userRepository_findByEmail_def sample_db_def sample_dto2_def)
  have v: "passwordHashing_verify sample_collaborators (u_hash (hd (db_users sample_db)))
       (dto_password sample_dto2) = Inr False"
    by (simp add: passwordHashing_verify_def sample_collaborators_def sample_db_def sample_dto2_def)
  show ?thesis
    using a b v signin_failures_indistinguishable [OF a b v] by simp
qed

text \<open>
  Claim C5, as the code has it.  A signup in which the email or the password is the
  empty string is rejected by the service with \<open>ValidationFailure\<close>, through the
  validation service it calls before anything else, and nothing is stored.  Signin
  validates nothing: for every request, an empty email or password included, it fails
  with \<open>ForbiddenException\<close> and the message of a credential failure when no account has
  the email or when the password does not verify.
\<close>

theorem auth_validation:
  "((dto_email dto = [] \<or> dto_password dto = []) \<and>
    validateSignupData c dto = validateSignupData_spec dto \<longrightarrow>
      is_ValidationFailure (fst (signup c salt db dto)) \<and> snd (signup c salt db dto) = db) \<and>
   (userRepository_findByEmail db (dto_email dto) = None \<longrightarrow>
      signin c db dto = Inl (ForbiddenException ''Credentials incorrect'')) \<and>
   (userRepository_findByEmail db (dto_email dto) = Some user \<and>
    passwordHashing_verify c (u_hash user) (dto_password dto) = Inr False \<longrightarrow>
      signin c db dto = Inl (ForbiddenException ''Credentials incorrect''))"
  by (auto simp: signup_def signin_def validateSignupData_spec_def)

theorem auth_validation_witness:
  "dto_email sample_empty_dto = [] \<and>
   validateSignupData sample_collaborators sample_empty_dto =
     validateSignupData_spec sample_empty_dto \<and>
   is_ValidationFailure (fst (signup sample_collaborators ''s1'' sample_db sample_empty_dto)) \<and>
   snd (signup sample_collaborators ''s1'' sample_db sample_empty_dto) = sample_db \<and>
   dto_password sample_empty_password = [] \<and>
   validateSignupData sample_collaborators sample_empty_password =
     validateSignupData_spec sample_empty_password \<and>
   is_ValidationFailure (fst (signup sample_collaborators ''s1'' sample_db sample_empty_password)) \<and>
   userRepository_findByEmail sample_db (dto_email sample_empty_dto) = None \<and>
   signin sample_collaborators sample_db sample_empty_dto =
     Inl (ForbiddenException ''Credentials incorrect'') \<and>
   userRepository_findByEmail sample_db (dto_email sample_empty_password) =
     Some (hd (db_users sample_db)) \<and>
   passwordHashing_verify sample_collaborators (u_hash (hd (db_users sample_db)))
     (dto_password sample_empty_password) = Inr False \<and>
   signin sample_collaborators sample_db sample_empty_password =
     Inl (ForbiddenException ''Credentials incorrect'')"
proof -
  have e: "dto_email sample_empty_dto = []" "dto_password sample_empty_password = []"
    by (simp_all add: sample_empty_dto_def sample_empty_password_def)
  have a: "validateSignupData sample_collaborators sample_empty_dto =
      validateSignupData_spec sample_empty_dto"
    "validateSignupData sample_collaborators sample_empty_password =
      validateSignupData_spec sample_empty_password"
    by (simp_all add: sample_collaborators_def)
  have b: "userRepository_findByEmail sample_db (dto_email sample_empty_dto) = None"
    by (simp add: userRepository_findByEmail_def sample_db_def sample_empty_dto_def)
  have d: "userRepository_findByEmail sample_db (dto_email sample_empty_password) =
      Some (hd (db_users sample_db))"
    by (simp add: userRepository_findByEmail_def sample_db_def sample_empty_password_def)
  have v: "passwordHashing_verify sample_collaborators (u_hash (hd (db_users sample_db)))
      (dto_password sample_empty_password) = Inr False"
    by (simp add: passwordHashing_verify_def sample_collaborators_def sample_db_def
        sample_empty_password_def)
  show ?thesis
    using e a b d v
      auth_validation [of sample_empty_dto sample_collaborators "''s1''" sample_db
        "hd (db_users sample_db)"]
      auth_validation [of sample_empty_password sample_collaborators "''s1''" sample_db
        "hd (db_users sample_db)"]
    by simp
qed

text \<open>
  A signin with the email of an account and the empty password is answered with the
  credential failure, not with a validation failure.
\<close>

theorem signin_empty_counterexample:
  "signin sample_collaborators sample_db \<lparr>dto_email = ''test@test.com'', dto_password = []\<rparr> =
     Inl (ForbiddenException ''Credentials incorrect'') \<and>
   \<not> is_ValidationFailure
       (signin sample_collaborators sample_db \<lparr>dto_email = ''test@test.com'', dto_password = []\<rparr>)"
  by (simp add: signin_def userRepository_findByEmail_def sample_db_def sample_collaborators_def
      passwordHashing_verify_def)

end
